theory Spec2Isabelle
  imports Main "HOL-Library.Word"
begin

section \<open>The external scanner of the Morpheus grammar (scanner.c)\<close>

subsection \<open>Types of the scanner interface\<close>

text \<open>
  The scanner is written against the C interface of the parsing engine: code points are
  \<open>int32_t\<close>, token categories are \<open>uint16_t\<close> symbols, the payload and the
  serialization buffer are pointers into memory.
\<close>

type_synonym int32_t = "32 word"
type_synonym TSSymbol = "16 word"
type_synonym addr = nat
type_synonym memory = "addr \<Rightarrow> 8 word"

definition NULL :: addr where
  "NULL = 0"

text \<open>\<^verbatim>\<open>enum TokenType { LINE_CONTINUATION, };\<close> The only enumerator has the value 0.\<close>

datatype TokenType = LINE_CONTINUATION

fun TokenType_value :: "TokenType \<Rightarrow> TSSymbol" where
  "TokenType_value LINE_CONTINUATION = 0"

text \<open>The character constants of the source: \<^verbatim>\<open>'\n'\<close>, \<^verbatim>\<open>'\r'\<close> and \<^verbatim>\<open>'\\'\<close>.\<close>

abbreviation NEWLINE :: int32_t where
  "NEWLINE \<equiv> 10"

abbreviation CARRIAGE_RETURN :: int32_t where
  "CARRIAGE_RETURN \<equiv> 13"

abbreviation BACKSLASH :: int32_t where
  "BACKSLASH \<equiv> 92"

subsection \<open>The lexer cursor\<close>

text \<open>
  Modelled from the spec: the lexer cursor (\<open>TSLexer\<close>, declared in
  \<^verbatim>\<open>tree_sitter/parser.h\<close>, which is not among the sources). The spec gives the cursor
  three capabilities: peek the current code point, advance one code point, optionally
  marking the consumed text as insignificant, and report the category of a recognized
  token. The cursor is a position in the code points of the document; the token that a
  successful scan reports spans from \<open>token_start_position\<close> to \<open>current_position\<close>, and an
  advance that marks its character as insignificant moves the start of the token behind
  that character. At the end of the input the code point under the cursor is the
  sentinel 0 and advancing does nothing.
\<close>

record TSLexer =
  source_text :: "int32_t list"
  current_position :: nat
  token_start_position :: nat
  result_symbol :: TSSymbol

definition lookahead :: "TSLexer \<Rightarrow> int32_t" where
  "lookahead lexer =
     (if current_position lexer < length (source_text lexer)
      then source_text lexer ! current_position lexer
      else 0)"

definition advance :: "TSLexer \<Rightarrow> bool \<Rightarrow> TSLexer" where
  "advance lexer skip =
     (if current_position lexer < length (source_text lexer) then
        (if skip
         then lexer\<lparr>current_position := current_position lexer + 1,
                    token_start_position := current_position lexer + 1\<rparr>
         else lexer\<lparr>current_position := current_position lexer + 1\<rparr>)
      else lexer)"

subsection \<open>Creation, destruction and serialization\<close>

text \<open>
  The four functions have empty bodies or return a constant; none reads or writes
  memory. Each takes the memory and returns it with its result.
\<close>

definition tree_sitter_morpheus_external_scanner_create :: "memory \<Rightarrow> addr \<times> memory" where
  "tree_sitter_morpheus_external_scanner_create mem = (NULL, mem)"

definition tree_sitter_morpheus_external_scanner_destroy :: "memory \<Rightarrow> addr \<Rightarrow> memory" where
  "tree_sitter_morpheus_external_scanner_destroy mem payload = mem"

definition tree_sitter_morpheus_external_scanner_serialize ::
  "memory \<Rightarrow> addr \<Rightarrow> addr \<Rightarrow> 32 word \<times> memory" where
  "tree_sitter_morpheus_external_scanner_serialize mem payload buffer = (0, mem)"

definition tree_sitter_morpheus_external_scanner_deserialize ::
  "memory \<Rightarrow> addr \<Rightarrow> addr \<Rightarrow> 32 word \<Rightarrow> memory" where
  "tree_sitter_morpheus_external_scanner_deserialize mem payload buffer len = mem"

subsection \<open>Scanning\<close>

text \<open>
  The classification \<open>iswspace\<close> belongs to the C library and depends on the locale of the
  process, so it is a parameter of the model. The loop
  \<^verbatim>\<open>while (iswspace(lexer->lookahead)) { if (lexer->lookahead == '\n') break; lexer->advance(lexer, true); }\<close>
  runs as long as the classification holds, so its model may fail to return: \<open>None\<close>
  stands for a loop that never ends.
\<close>

partial_function (option) skip_whitespace ::
  "(int32_t \<Rightarrow> bool) \<Rightarrow> TSLexer \<Rightarrow> TSLexer option" where
  "skip_whitespace iswspace lexer =
     (if iswspace (lookahead lexer) then
        (if lookahead lexer = NEWLINE then Some lexer
         else skip_whitespace iswspace (advance lexer True))
      else Some lexer)"

definition tree_sitter_morpheus_external_scanner_scan ::
  "(int32_t \<Rightarrow> bool) \<Rightarrow> addr \<Rightarrow> TSLexer \<Rightarrow> (TokenType \<Rightarrow> bool) \<Rightarrow> (bool \<times> TSLexer) option" where
  "tree_sitter_morpheus_external_scanner_scan iswspace payload lexer valid_symbols =
     (if valid_symbols LINE_CONTINUATION then
        (case skip_whitespace iswspace lexer of
           None \<Rightarrow> None
         | Some lexer1 \<Rightarrow>
             if lookahead lexer1 = BACKSLASH then
               (let lexer2 = advance lexer1 False;
                    lexer3 = (if lookahead lexer2 = CARRIAGE_RETURN
                              then advance lexer2 False else lexer2)
                in if lookahead lexer3 = NEWLINE
                   then Some (True, (advance lexer3 False)
                                      \<lparr>result_symbol := TokenType_value LINE_CONTINUATION\<rparr>)
                   else Some (False, lexer3))
             else Some (False, lexer1))
      else Some (False, lexer))"

text \<open>
  The classification of \<^verbatim>\<open><wctype.h>\<close> in the default "C" locale: space, horizontal tab,
  newline, vertical tab, form feed and carriage return.
\<close>

definition iswspace_C :: "int32_t \<Rightarrow> bool" where
  "iswspace_C c \<longleftrightarrow> c = 32 \<or> c = 9 \<or> c = 10 \<or> c = 11 \<or> c = 12 \<or> c = 13"

subsection \<open>Vocabulary for the statements\<close>

text \<open>
  The input that is still in front of the cursor, the code point that the cursor shows
  in front of a given rest of the input (the sentinel 0 when nothing is left), the
  longest run of code points at the cursor that the loop of scan skips, and the lexer
  after \<open>n\<close> characters have been skipped as insignificant.
\<close>

definition remaining :: "TSLexer \<Rightarrow> int32_t list" where
  "remaining lexer = drop (current_position lexer) (source_text lexer)"

definition first_code_point :: "int32_t list \<Rightarrow> int32_t" where
  "first_code_point cs = (case cs of [] \<Rightarrow> 0 | c # _ \<Rightarrow> c)"

definition whitespace_run :: "(int32_t \<Rightarrow> bool) \<Rightarrow> TSLexer \<Rightarrow> int32_t list" where
  "whitespace_run iswspace lexer =
     takeWhile (\<lambda>c. iswspace c \<and> c \<noteq> NEWLINE) (remaining lexer)"

definition skip_by :: "TSLexer \<Rightarrow> nat \<Rightarrow> TSLexer" where
  "skip_by lexer n =
     (if n = 0 then lexer
      else lexer\<lparr>current_position := current_position lexer + n,
                 token_start_position := current_position lexer + n\<rparr>)"

section \<open>The cursor\<close>

lemma first_code_point_simps [simp]:
  "first_code_point [] = 0" "first_code_point (c # cs) = c"
  by (simp_all add: first_code_point_def)

lemma lookahead_remaining: "lookahead l = first_code_point (remaining l)"
proof (cases "current_position l < length (source_text l)")
  case True
  then have "remaining l = source_text l ! current_position l # drop (Suc (current_position l)) (source_text l)"
    by (simp add: remaining_def Cons_nth_drop_Suc)
  with True show ?thesis by (simp add: lookahead_def)
next
  case False
  then show ?thesis by (simp add: lookahead_def remaining_def)
qed

lemma lookahead_Cons: "remaining l = c # r \<Longrightarrow> lookahead l = c"
  by (simp add: lookahead_remaining)

lemma advance_Cons:
  assumes "remaining l = c # r"
  shows "advance l True = l\<lparr>current_position := current_position l + 1,
                    token_start_position := current_position l + 1\<rparr>"
    and "advance l False = l\<lparr>current_position := current_position l + 1\<rparr>"
    and "remaining (advance l skip) = r"
proof -
  from assms have lt: "current_position l < length (source_text l)"
    by (cases "current_position l < length (source_text l)") (simp_all add: remaining_def)
  show "advance l True = l\<lparr>current_position := current_position l + 1,
                    token_start_position := current_position l + 1\<rparr>"
    and "advance l False = l\<lparr>current_position := current_position l + 1\<rparr>"
    using lt by (simp_all add: advance_def)
  from assms have "drop (Suc (current_position l)) (source_text l) = r"
    unfolding remaining_def by (metis drop_Suc tl_drop list.sel(3))
  then show "remaining (advance l skip) = r"
    using lt by (simp add: advance_def remaining_def)
qed

lemma remaining_update [simp]:
  "remaining (l\<lparr>token_start_position := t\<rparr>) = remaining l"
  "remaining (l\<lparr>result_symbol := s\<rparr>) = remaining l"
  by (simp_all add: remaining_def)

lemma remaining_forward:
  "remaining l = pre @ rest \<Longrightarrow>
   remaining (l\<lparr>current_position := current_position l + length pre\<rparr>) = rest"
proof -
  assume a: "remaining l = pre @ rest"
  have "drop (current_position l + length pre) (source_text l)
          = drop (length pre) (drop (current_position l) (source_text l))"
    by (simp add: add.commute)
  with a show ?thesis by (simp add: remaining_def)
qed

lemma remaining_skip_by:
  "remaining l = pre @ rest \<Longrightarrow> remaining (skip_by l (length pre)) = rest"
  using remaining_forward [of l pre rest] by (simp add: skip_by_def remaining_def)

lemma skip_by_advance:
  assumes "remaining l = c # r"
  shows "skip_by (advance l True) n = skip_by l (Suc n)"
  using advance_Cons(1) [OF assms] by (simp add: skip_by_def)

lemma skip_by_fields:
  "current_position (skip_by l n) = current_position l + n"
  "token_start_position (skip_by l n)
     = (if n = 0 then token_start_position l else current_position l + n)"
  by (simp_all add: skip_by_def)

lemma skip_by_forward:
  "(skip_by l n)\<lparr>current_position := current_position (skip_by l n) + k\<rparr>
     = l\<lparr>current_position := current_position l + n + k,
          token_start_position :=
            (if n = 0 then token_start_position l else current_position l + n)\<rparr>"
  by (simp add: skip_by_def)

lemma skip_by_forward_symbol:
  "(skip_by l n)\<lparr>current_position := current_position (skip_by l n) + k, result_symbol := x\<rparr>
     = l\<lparr>current_position := current_position l + n + k,
          token_start_position :=
            (if n = 0 then token_start_position l else current_position l + n),
          result_symbol := x\<rparr>"
  by (simp add: skip_by_def)

section \<open>The whitespace loop\<close>

text \<open>
  The loop stops where the classification fails or a newline is under the cursor, and
  otherwise takes one step. Over a run of skippable code points that is followed by a code
  point at which it stops, it returns the lexer moved behind the run.
\<close>

lemma skip_whitespace_stop:
  "\<not> iswspace (lookahead l) \<or> lookahead l = NEWLINE \<Longrightarrow> skip_whitespace iswspace l = Some l"
  by (subst skip_whitespace.simps) auto

lemma skip_whitespace_step:
  "iswspace (lookahead l) \<Longrightarrow> lookahead l \<noteq> NEWLINE \<Longrightarrow>
   skip_whitespace iswspace l = skip_whitespace iswspace (advance l True)"
  by (subst skip_whitespace.simps) simp

lemma skip_whitespace_run:
  assumes "remaining l = pre @ rest"
    and "\<forall>c\<in>set pre. iswspace c \<and> c \<noteq> NEWLINE"
    and "\<not> iswspace (first_code_point rest) \<or> first_code_point rest = NEWLINE"
  shows "skip_whitespace iswspace l = Some (skip_by l (length pre))"
  using assms
proof (induction pre arbitrary: l)
  case Nil
  then show ?case
    by (simp add: skip_whitespace_stop lookahead_remaining skip_by_def)
next
  case (Cons c pre)
  from Cons.prems(1) have rem: "remaining l = c # (pre @ rest)" by simp
  have look: "lookahead l = c" by (simp add: lookahead_remaining rem)
  from Cons.prems(2) have c: "iswspace c" "c \<noteq> NEWLINE" by simp_all
  have "skip_whitespace iswspace l = skip_whitespace iswspace (advance l True)"
    using c by (simp add: skip_whitespace_step look)
  also have "\<dots> = Some (skip_by (advance l True) (length pre))"
    using Cons.prems by (intro Cons.IH) (simp_all add: advance_Cons(3) [OF rem])
  finally show ?case by (simp add: skip_by_advance [OF rem])
qed

lemma whitespace_run_split:
  "remaining l = whitespace_run iswspace l @ dropWhile (\<lambda>c. iswspace c \<and> c \<noteq> NEWLINE) (remaining l)"
  by (simp add: whitespace_run_def)

lemma first_code_point_dropWhile:
  "\<not> P 0 \<Longrightarrow> \<not> P (first_code_point (dropWhile P cs))"
  by (induction cs) simp_all

lemma skip_whitespace_returns:
  assumes "\<not> iswspace 0"
  shows "skip_whitespace iswspace l = Some (skip_by l (length (whitespace_run iswspace l)))"
proof (rule skip_whitespace_run [OF whitespace_run_split])
  show "\<forall>c\<in>set (whitespace_run iswspace l). iswspace c \<and> c \<noteq> NEWLINE"
    by (auto simp: whitespace_run_def dest: set_takeWhileD)
  have "\<not> (\<lambda>c. iswspace c \<and> c \<noteq> NEWLINE) (first_code_point (dropWhile (\<lambda>c. iswspace c \<and> c \<noteq> NEWLINE) (remaining l)))"
    by (rule first_code_point_dropWhile) (simp add: assms)
  then show "\<not> iswspace (first_code_point (dropWhile (\<lambda>c. iswspace c \<and> c \<noteq> NEWLINE) (remaining l))) \<or>
    first_code_point (dropWhile (\<lambda>c. iswspace c \<and> c \<noteq> NEWLINE) (remaining l)) = NEWLINE"
    by simp
qed

text \<open>
  The sentinel must not be classified as whitespace: at the end of the input advancing
  does nothing, so a classification that holds of 0 keeps the loop running forever.
\<close>

lemma skip_whitespace_never_returns:
  assumes "iswspace 0" and "length (source_text l) \<le> current_position l"
  shows "skip_whitespace iswspace l = None"
proof -
  have look: "lookahead l = 0" using assms(2) by (simp add: lookahead_def)
  have adv: "advance l True = l" using assms(2) by (simp add: advance_def)
  have "(\<lambda>f. f iswspace l = None) skip_whitespace"
  proof (rule skip_whitespace.fixp_induct)
    show "option.admissible (\<lambda>f. curry f iswspace l = None)"
      unfolding ccpo.admissible_def fun_lub_def flat_lub_def by auto
  next
    show "(\<lambda>w (a :: TSLexer). None :: TSLexer option) iswspace l = None" by simp
  next
    fix f :: "(int32_t \<Rightarrow> bool) \<Rightarrow> TSLexer \<Rightarrow> TSLexer option"
    assume "f iswspace l = None"
    then show "(if iswspace (lookahead l) then if lookahead l = NEWLINE then Some l
              else f iswspace (advance l True) else Some l) = None"
      using assms(1) by (simp add: look adv)
  qed
  then show ?thesis .
qed

text \<open>Whatever the classification, a loop that returns has left the result symbol alone.\<close>

lemma skip_whitespace_result_symbol:
  assumes "skip_whitespace iswspace l = Some l'"
  shows "result_symbol l' = result_symbol l"
proof (rule skip_whitespace.raw_induct
    [where P = "\<lambda>_ l l'. result_symbol l' = result_symbol l", OF _ assms])
  fix f w a b
  assume IH: "\<And>w a b. f w a = Some b \<Longrightarrow> result_symbol b = result_symbol a"
    and eq: "(if w (lookahead a) then if lookahead a = NEWLINE then Some a
              else f w (advance a True) else Some a) = Some b"
  show "result_symbol b = result_symbol a"
  proof (cases "w (lookahead a) \<and> lookahead a \<noteq> NEWLINE")
    case True
    with eq have "f w (advance a True) = Some b" by simp
    then have "result_symbol b = result_symbol (advance a True)" by (rule IH)
    then show ?thesis by (simp add: advance_def)
  next
    case False
    with eq show ?thesis by (auto split: if_splits)
  qed
qed

section \<open>The match behind the whitespace\<close>

text \<open>
  One lemma for each way through the code behind the loop, in terms of the lexer \<open>l1\<close>
  that the loop returns and of the input in front of it.
\<close>

lemma scan_no_backslash:
  assumes "valid_symbols LINE_CONTINUATION"
    and "skip_whitespace iswspace l = Some l1"
    and "lookahead l1 \<noteq> BACKSLASH"
  shows "tree_sitter_morpheus_external_scanner_scan iswspace payload l valid_symbols
           = Some (False, l1)"
  using assms by (simp add: tree_sitter_morpheus_external_scanner_scan_def)

lemma scan_backslash_LF:
  assumes "valid_symbols LINE_CONTINUATION"
    and "skip_whitespace iswspace l = Some l1"
    and rem: "remaining l1 = BACKSLASH # NEWLINE # r"
  shows "tree_sitter_morpheus_external_scanner_scan iswspace payload l valid_symbols
           = Some (True, l1\<lparr>current_position := current_position l1 + 2,
                             result_symbol := TokenType_value LINE_CONTINUATION\<rparr>)"
proof -
  let ?l2 = "advance l1 False"
  have l2: "?l2 = l1\<lparr>current_position := current_position l1 + 1\<rparr>"
    by (rule advance_Cons(2) [OF rem])
  have rem2: "remaining ?l2 = NEWLINE # r"
    by (rule advance_Cons(3) [OF rem])
  have l3: "advance ?l2 False = ?l2\<lparr>current_position := current_position ?l2 + 1\<rparr>"
    using advance_Cons(2) [OF rem2] .
  have "tree_sitter_morpheus_external_scanner_scan iswspace payload l valid_symbols
          = Some (True, (advance ?l2 False)\<lparr>result_symbol := TokenType_value LINE_CONTINUATION\<rparr>)"
    using assms(1,2) lookahead_Cons [OF rem] lookahead_Cons [OF rem2]
    by (simp add: tree_sitter_morpheus_external_scanner_scan_def Let_def)
  also have "advance ?l2 False = l1\<lparr>current_position := current_position l1 + 2\<rparr>"
    using l3 l2 by simp
  finally show ?thesis .
qed

lemma scan_backslash_CR_LF:
  assumes "valid_symbols LINE_CONTINUATION"
    and "skip_whitespace iswspace l = Some l1"
    and rem: "remaining l1 = BACKSLASH # CARRIAGE_RETURN # NEWLINE # r"
  shows "tree_sitter_morpheus_external_scanner_scan iswspace payload l valid_symbols
           = Some (True, l1\<lparr>current_position := current_position l1 + 3,
                             result_symbol := TokenType_value LINE_CONTINUATION\<rparr>)"
proof -
  let ?l2 = "advance l1 False"
  let ?l3 = "advance ?l2 False"
  have l2: "?l2 = l1\<lparr>current_position := current_position l1 + 1\<rparr>"
    by (rule advance_Cons(2) [OF rem])
  have rem2: "remaining ?l2 = CARRIAGE_RETURN # NEWLINE # r"
    by (rule advance_Cons(3) [OF rem])
  have l3: "?l3 = ?l2\<lparr>current_position := current_position ?l2 + 1\<rparr>"
    by (rule advance_Cons(2) [OF rem2])
  have rem3: "remaining ?l3 = NEWLINE # r"
    by (rule advance_Cons(3) [OF rem2])
  have l4: "advance ?l3 False = ?l3\<lparr>current_position := current_position ?l3 + 1\<rparr>"
    using advance_Cons(2) [OF rem3] .
  have "tree_sitter_morpheus_external_scanner_scan iswspace payload l valid_symbols
          = Some (True, (advance ?l3 False)\<lparr>result_symbol := TokenType_value LINE_CONTINUATION\<rparr>)"
    using assms(1,2) lookahead_Cons [OF rem] lookahead_Cons [OF rem2] lookahead_Cons [OF rem3]
    by (simp add: tree_sitter_morpheus_external_scanner_scan_def Let_def)
  also have "advance ?l3 False = l1\<lparr>current_position := current_position l1 + 3\<rparr>"
    using l4 l3 l2 by simp
  finally show ?thesis .
qed

lemma scan_backslash_other:
  assumes "valid_symbols LINE_CONTINUATION"
    and "skip_whitespace iswspace l = Some l1"
    and rem: "remaining l1 = BACKSLASH # r"
    and "first_code_point r \<noteq> CARRIAGE_RETURN" "first_code_point r \<noteq> NEWLINE"
  shows "tree_sitter_morpheus_external_scanner_scan iswspace payload l valid_symbols
           = Some (False, l1\<lparr>current_position := current_position l1 + 1\<rparr>)"
proof -
  let ?l2 = "advance l1 False"
  have l2: "?l2 = l1\<lparr>current_position := current_position l1 + 1\<rparr>"
    by (rule advance_Cons(2) [OF rem])
  have rem2: "remaining ?l2 = r"
    by (rule advance_Cons(3) [OF rem])
  have "lookahead ?l2 = first_code_point r"
    by (simp only: lookahead_remaining rem2)
  then have "tree_sitter_morpheus_external_scanner_scan iswspace payload l valid_symbols
          = Some (False, ?l2)"
    using assms(1,2,4,5) lookahead_Cons [OF rem]
    by (simp add: tree_sitter_morpheus_external_scanner_scan_def Let_def)
  then show ?thesis by (simp only: l2)
qed

lemma scan_backslash_CR_other:
  assumes "valid_symbols LINE_CONTINUATION"
    and "skip_whitespace iswspace l = Some l1"
    and rem: "remaining l1 = BACKSLASH # CARRIAGE_RETURN # r"
    and "first_code_point r \<noteq> NEWLINE"
  shows "tree_sitter_morpheus_external_scanner_scan iswspace payload l valid_symbols
           = Some (False, l1\<lparr>current_position := current_position l1 + 2\<rparr>)"
proof -
  let ?l2 = "advance l1 False"
  let ?l3 = "advance ?l2 False"
  have l2: "?l2 = l1\<lparr>current_position := current_position l1 + 1\<rparr>"
    by (rule advance_Cons(2) [OF rem])
  have rem2: "remaining ?l2 = CARRIAGE_RETURN # r"
    by (rule advance_Cons(3) [OF rem])
  have l3: "?l3 = ?l2\<lparr>current_position := current_position ?l2 + 1\<rparr>"
    by (rule advance_Cons(2) [OF rem2])
  have rem3: "remaining ?l3 = r"
    by (rule advance_Cons(3) [OF rem2])
  have "lookahead ?l3 = first_code_point r"
    by (simp only: lookahead_remaining rem3)
  then have "tree_sitter_morpheus_external_scanner_scan iswspace payload l valid_symbols
          = Some (False, ?l3)"
    using assms(1,2,4) lookahead_Cons [OF rem] lookahead_Cons [OF rem2]
    by (simp add: tree_sitter_morpheus_external_scanner_scan_def Let_def)
  also have "?l3 = l1\<lparr>current_position := current_position l1 + 2\<rparr>"
    using l3 l2 by simp
  finally show ?thesis .
qed

lemma scan_after_whitespace:
  assumes "valid_symbols LINE_CONTINUATION" and "skip_whitespace iswspace l = Some l1"
  shows "\<exists>ok l'. tree_sitter_morpheus_external_scanner_scan iswspace payload l valid_symbols
                    = Some (ok, l')
           \<and> current_position l1 \<le> current_position l'
           \<and> current_position l' \<le> current_position l1 + 3
           \<and> token_start_position l' = token_start_position l1"
  using assms
  by (auto simp: tree_sitter_morpheus_external_scanner_scan_def Let_def advance_def)

lemma scan_never_returns:
  assumes "valid_symbols LINE_CONTINUATION" and "iswspace 0"
    and "length (source_text l) \<le> current_position l"
  shows "tree_sitter_morpheus_external_scanner_scan iswspace payload l valid_symbols = None"
  using assms
  by (simp add: tree_sitter_morpheus_external_scanner_scan_def skip_whitespace_never_returns)

section \<open>Properties of scan\<close>

text \<open>
  In every statement \<open>iswspace\<close> is any classification of code points; what a statement
  needs of it is among its hypotheses. The witnesses take the classification of the "C"
  locale.
\<close>

text \<open>
  C1: with the line continuation category admissible, on an input that begins at the
  cursor with a backslash and a newline scan succeeds, sets the result symbol to the
  line continuation category and moves the cursor by exactly 2; on an input that begins
  with backslash, carriage return, newline it does the same and moves the cursor by
  exactly 3. Nothing else of the lexer changes: no character is skipped, the start of
  the token stays where it was. The backslash is taken not to be whitespace.
\<close>

theorem scan_line_continuation:
  assumes "valid_symbols LINE_CONTINUATION" and "\<not> iswspace BACKSLASH"
  shows "(remaining lexer = BACKSLASH # NEWLINE # rest \<longrightarrow>
            tree_sitter_morpheus_external_scanner_scan iswspace payload lexer valid_symbols
              = Some (True, lexer\<lparr>current_position := current_position lexer + 2,
                                   result_symbol := TokenType_value LINE_CONTINUATION\<rparr>))
       \<and> (remaining lexer = BACKSLASH # CARRIAGE_RETURN # NEWLINE # rest \<longrightarrow>
            tree_sitter_morpheus_external_scanner_scan iswspace payload lexer valid_symbols
              = Some (True, lexer\<lparr>current_position := current_position lexer + 3,
                                   result_symbol := TokenType_value LINE_CONTINUATION\<rparr>))"
proof (intro conjI impI)
  assume rem: "remaining lexer = BACKSLASH # NEWLINE # rest"
  have skip: "skip_whitespace iswspace lexer = Some lexer"
    using assms(2) by (simp add: skip_whitespace_stop lookahead_Cons [OF rem])
  show "tree_sitter_morpheus_external_scanner_scan iswspace payload lexer valid_symbols
              = Some (True, lexer\<lparr>current_position := current_position lexer + 2,
                                   result_symbol := TokenType_value LINE_CONTINUATION\<rparr>)"
    using assms(1) skip rem by (rule scan_backslash_LF)
next
  assume rem: "remaining lexer = BACKSLASH # CARRIAGE_RETURN # NEWLINE # rest"
  have skip: "skip_whitespace iswspace lexer = Some lexer"
    using assms(2) by (simp add: skip_whitespace_stop lookahead_Cons [OF rem])
  show "tree_sitter_morpheus_external_scanner_scan iswspace payload lexer valid_symbols
              = Some (True, lexer\<lparr>current_position := current_position lexer + 3,
                                   result_symbol := TokenType_value LINE_CONTINUATION\<rparr>)"
    using assms(1) skip rem by (rule scan_backslash_CR_LF)
qed

theorem scan_line_continuation_witness:
  "(\<lambda>_. True) LINE_CONTINUATION \<and> \<not> iswspace_C BACKSLASH
   \<and> tree_sitter_morpheus_external_scanner_scan iswspace_C NULL
       \<lparr>source_text = [BACKSLASH, NEWLINE], current_position = 0,
        token_start_position = 0, result_symbol = 7\<rparr> (\<lambda>_. True)
       = Some (True, \<lparr>source_text = [BACKSLASH, NEWLINE], current_position = 2,
                       token_start_position = 0, result_symbol = 0\<rparr>)
   \<and> tree_sitter_morpheus_external_scanner_scan iswspace_C NULL
       \<lparr>source_text = [BACKSLASH, CARRIAGE_RETURN, NEWLINE], current_position = 0,
        token_start_position = 0, result_symbol = 7\<rparr> (\<lambda>_. True)
       = Some (True, \<lparr>source_text = [BACKSLASH, CARRIAGE_RETURN, NEWLINE],
                       current_position = 3, token_start_position = 0, result_symbol = 0\<rparr>)"
  using scan_line_continuation [of "\<lambda>_. True" iswspace_C
      "\<lparr>source_text = [BACKSLASH, NEWLINE], current_position = 0,
        token_start_position = 0, result_symbol = 7\<rparr>" "[]" NULL]
    scan_line_continuation [of "\<lambda>_. True" iswspace_C
      "\<lparr>source_text = [BACKSLASH, CARRIAGE_RETURN, NEWLINE], current_position = 0,
        token_start_position = 0, result_symbol = 7\<rparr>" "[]" NULL]
  by (simp add: iswspace_C_def remaining_def)

text \<open>
  C2: when the line continuation category is not admissible, scan returns failure and
  hands the lexer back exactly as it received it, whatever the input, the position and
  the classification: the cursor is not advanced, and since the result is the same for
  every input, no character of the input has a part in it.
\<close>

theorem scan_not_admissible:
  "\<not> valid_symbols LINE_CONTINUATION \<Longrightarrow>
   tree_sitter_morpheus_external_scanner_scan iswspace payload lexer valid_symbols
     = Some (False, lexer)"
  by (simp add: tree_sitter_morpheus_external_scanner_scan_def)

theorem scan_not_admissible_witness:
  "\<not> (\<lambda>_. False) LINE_CONTINUATION \<and>
   tree_sitter_morpheus_external_scanner_scan iswspace_C NULL
     \<lparr>source_text = [BACKSLASH, NEWLINE], current_position = 0,
      token_start_position = 0, result_symbol = 7\<rparr> (\<lambda>_. False)
     = Some (False, \<lparr>source_text = [BACKSLASH, NEWLINE], current_position = 0,
                     token_start_position = 0, result_symbol = 7\<rparr>)"
  using scan_not_admissible [of "\<lambda>_. False" iswspace_C NULL
      "\<lparr>source_text = [BACKSLASH, NEWLINE], current_position = 0,
        token_start_position = 0, result_symbol = 7\<rparr>"]
  by simp

text \<open>
  C3: with the category admissible, scan first consumes the whole run of whitespace code
  points other than the newline that stands at the cursor, each as insignificant text:
  scan returns, its cursor is at or behind the end of the run, and the token starts at
  the end of the run (where the run is empty the start of the token is not moved), so
  that no skipped character lies in the span of a token. The sentinel 0 is taken not to
  be whitespace. In particular, on three spaces followed by backslash and newline scan
  succeeds with the cursor moved by 5 and the token starting behind the 3 spaces: the
  token spans the backslash and the newline only.
\<close>

theorem scan_skips_leading_whitespace:
  assumes "valid_symbols LINE_CONTINUATION"
  shows "(\<not> iswspace 0 \<longrightarrow>
           (\<exists>ok lexer'.
              tree_sitter_morpheus_external_scanner_scan iswspace payload lexer valid_symbols
                = Some (ok, lexer')
              \<and> current_position lexer + length (whitespace_run iswspace lexer)
                  \<le> current_position lexer'
              \<and> token_start_position lexer'
                  = (if length (whitespace_run iswspace lexer) = 0
                     then token_start_position lexer
                     else current_position lexer + length (whitespace_run iswspace lexer))))
       \<and> (iswspace 32 \<and> \<not> iswspace BACKSLASH
            \<and> remaining lexer = 32 # 32 # 32 # BACKSLASH # NEWLINE # rest \<longrightarrow>
            tree_sitter_morpheus_external_scanner_scan iswspace payload lexer valid_symbols
              = Some (True, lexer\<lparr>current_position := current_position lexer + 5,
                                   token_start_position := current_position lexer + 3,
                                   result_symbol := TokenType_value LINE_CONTINUATION\<rparr>))"
proof (intro conjI impI)
  assume "\<not> iswspace 0"
  then have "skip_whitespace iswspace lexer
               = Some (skip_by lexer (length (whitespace_run iswspace lexer)))"
    by (rule skip_whitespace_returns)
  from scan_after_whitespace [of valid_symbols iswspace lexer _ payload, OF assms this]
  show "\<exists>ok lexer'.
              tree_sitter_morpheus_external_scanner_scan iswspace payload lexer valid_symbols
                = Some (ok, lexer')
              \<and> current_position lexer + length (whitespace_run iswspace lexer)
                  \<le> current_position lexer'
              \<and> token_start_position lexer'
                  = (if length (whitespace_run iswspace lexer) = 0
                     then token_start_position lexer
                     else current_position lexer + length (whitespace_run iswspace lexer))"
    by (simp only: skip_by_fields) blast
next
  assume a: "iswspace 32 \<and> \<not> iswspace BACKSLASH
            \<and> remaining lexer = 32 # 32 # 32 # BACKSLASH # NEWLINE # rest"
  let ?pre = "[32, 32, 32] :: int32_t list"
  from a have rem: "remaining lexer = ?pre @ BACKSLASH # NEWLINE # rest" by simp
  have skip: "skip_whitespace iswspace lexer = Some (skip_by lexer (length ?pre))"
    using a by (intro skip_whitespace_run [OF rem]) simp_all
  have "tree_sitter_morpheus_external_scanner_scan iswspace payload lexer valid_symbols
          = Some (True, (skip_by lexer (length ?pre))
                \<lparr>current_position := current_position (skip_by lexer (length ?pre)) + 2,
                  result_symbol := TokenType_value LINE_CONTINUATION\<rparr>)"
    using assms skip remaining_skip_by [OF rem] by (rule scan_backslash_LF)
  then show "tree_sitter_morpheus_external_scanner_scan iswspace payload lexer valid_symbols
              = Some (True, lexer\<lparr>current_position := current_position lexer + 5,
                                   token_start_position := current_position lexer + 3,
                                   result_symbol := TokenType_value LINE_CONTINUATION\<rparr>)"
    by (simp only: skip_by_forward_symbol) simp
qed

theorem scan_skips_leading_whitespace_witness:
  "(\<lambda>_. True) LINE_CONTINUATION \<and> \<not> iswspace_C 0 \<and> iswspace_C 32 \<and> \<not> iswspace_C BACKSLASH
   \<and> whitespace_run iswspace_C
       \<lparr>source_text = [32, 32, 32, BACKSLASH, NEWLINE], current_position = 0,
        token_start_position = 0, result_symbol = 7\<rparr> = [32, 32, 32]
   \<and> tree_sitter_morpheus_external_scanner_scan iswspace_C NULL
       \<lparr>source_text = [32, 32, 32, BACKSLASH, NEWLINE], current_position = 0,
        token_start_position = 0, result_symbol = 7\<rparr> (\<lambda>_. True)
       = Some (True, \<lparr>source_text = [32, 32, 32, BACKSLASH, NEWLINE], current_position = 5,
                       token_start_position = 3, result_symbol = 0\<rparr>)"
  using scan_skips_leading_whitespace [of "\<lambda>_. True" iswspace_C NULL
      "\<lparr>source_text = [32, 32, 32, BACKSLASH, NEWLINE], current_position = 0,
        token_start_position = 0, result_symbol = 7\<rparr>" "[]"]
  by (simp add: iswspace_C_def remaining_def whitespace_run_def)

text \<open>
  C4: with the category admissible, let the input at the cursor be a run \<open>pre\<close> of
  skippable whitespace (possibly empty), a backslash, and then \<open>rest\<close>. If \<open>rest\<close>
  begins with neither a newline nor a carriage return (or is empty), scan fails and
  leaves the cursor just behind the backslash. If \<open>rest\<close> is a carriage return that is
  not followed by a newline, scan fails and leaves the cursor behind the carriage
  return. In both cases the result symbol is untouched, so no token is reported, and
  the cursor is not moved back.
\<close>

theorem scan_backslash_without_newline:
  assumes "valid_symbols LINE_CONTINUATION" and "\<not> iswspace BACKSLASH"
    and "remaining lexer = pre @ BACKSLASH # rest"
    and "\<forall>c\<in>set pre. iswspace c \<and> c \<noteq> NEWLINE"
  shows "(first_code_point rest \<noteq> NEWLINE \<and> first_code_point rest \<noteq> CARRIAGE_RETURN \<longrightarrow>
            tree_sitter_morpheus_external_scanner_scan iswspace payload lexer valid_symbols
              = Some (False, lexer\<lparr>current_position := current_position lexer + length pre + 1,
                         token_start_position :=
                           (if length pre = 0 then token_start_position lexer
                            else current_position lexer + length pre)\<rparr>))
       \<and> (\<forall>rest'. rest = CARRIAGE_RETURN # rest' \<and> first_code_point rest' \<noteq> NEWLINE \<longrightarrow>
            tree_sitter_morpheus_external_scanner_scan iswspace payload lexer valid_symbols
              = Some (False, lexer\<lparr>current_position := current_position lexer + length pre + 2,
                         token_start_position :=
                           (if length pre = 0 then token_start_position lexer
                            else current_position lexer + length pre)\<rparr>))"
proof -
  let ?l1 = "skip_by lexer (length pre)"
  have skip: "skip_whitespace iswspace lexer = Some ?l1"
    by (rule skip_whitespace_run [OF assms(3) assms(4)]) (simp add: assms(2))
  have rem: "remaining ?l1 = BACKSLASH # rest"
    using assms(3) by (rule remaining_skip_by)
  show ?thesis
  proof (intro conjI allI impI)
    assume "first_code_point rest \<noteq> NEWLINE \<and> first_code_point rest \<noteq> CARRIAGE_RETURN"
    then have nxt: "first_code_point rest \<noteq> CARRIAGE_RETURN" "first_code_point rest \<noteq> NEWLINE"
      by blast+
    have "tree_sitter_morpheus_external_scanner_scan iswspace payload lexer valid_symbols
              = Some (False, ?l1\<lparr>current_position := current_position ?l1 + 1\<rparr>)"
      using assms(1) skip rem nxt by (rule scan_backslash_other)
    then show "tree_sitter_morpheus_external_scanner_scan iswspace payload lexer valid_symbols
              = Some (False, lexer\<lparr>current_position := current_position lexer + length pre + 1,
                         token_start_position :=
                           (if length pre = 0 then token_start_position lexer
                            else current_position lexer + length pre)\<rparr>)"
      by (simp only: skip_by_forward)
  next
    fix rest'
    assume a: "rest = CARRIAGE_RETURN # rest' \<and> first_code_point rest' \<noteq> NEWLINE"
    with rem have rem': "remaining ?l1 = BACKSLASH # CARRIAGE_RETURN # rest'" by simp
    from a have nxt: "first_code_point rest' \<noteq> NEWLINE" by blast
    have "tree_sitter_morpheus_external_scanner_scan iswspace payload lexer valid_symbols
              = Some (False, ?l1\<lparr>current_position := current_position ?l1 + 2\<rparr>)"
      using assms(1) skip rem' nxt by (rule scan_backslash_CR_other)
    then show "tree_sitter_morpheus_external_scanner_scan iswspace payload lexer valid_symbols
              = Some (False, lexer\<lparr>current_position := current_position lexer + length pre + 2,
                         token_start_position :=
                           (if length pre = 0 then token_start_position lexer
                            else current_position lexer + length pre)\<rparr>)"
      by (simp only: skip_by_forward)
  qed
qed

theorem scan_backslash_without_newline_witness:
  "(\<lambda>_. True) LINE_CONTINUATION \<and> \<not> iswspace_C BACKSLASH
   \<and> tree_sitter_morpheus_external_scanner_scan iswspace_C NULL
       \<lparr>source_text = [BACKSLASH, 120], current_position = 0,
        token_start_position = 0, result_symbol = 7\<rparr> (\<lambda>_. True)
       = Some (False, \<lparr>source_text = [BACKSLASH, 120], current_position = 1,
                        token_start_position = 0, result_symbol = 7\<rparr>)
   \<and> tree_sitter_morpheus_external_scanner_scan iswspace_C NULL
       \<lparr>source_text = [32, BACKSLASH, CARRIAGE_RETURN, 120], current_position = 0,
        token_start_position = 0, result_symbol = 7\<rparr> (\<lambda>_. True)
       = Some (False, \<lparr>source_text = [32, BACKSLASH, CARRIAGE_RETURN, 120],
                        current_position = 3, token_start_position = 1, result_symbol = 7\<rparr>)"
  using scan_backslash_without_newline [of "\<lambda>_. True" iswspace_C
      "\<lparr>source_text = [BACKSLASH, 120], current_position = 0,
        token_start_position = 0, result_symbol = 7\<rparr>" "[]" "[120]" NULL]
    scan_backslash_without_newline [of "\<lambda>_. True" iswspace_C
      "\<lparr>source_text = [32, BACKSLASH, CARRIAGE_RETURN, 120], current_position = 0,
        token_start_position = 0, result_symbol = 7\<rparr>" "[32]" "[CARRIAGE_RETURN, 120]" NULL]
  by (simp add: iswspace_C_def remaining_def)

text \<open>
  C5: when the code point under the cursor is a newline, as on the input that consists
  of a newline alone, scan fails and returns the lexer as it was: the loop stops at the
  newline without consuming it, and nothing else is consumed. This holds whether or
  not the category is admissible.
\<close>

theorem scan_newline_alone:
  assumes "lookahead lexer = NEWLINE"
  shows "tree_sitter_morpheus_external_scanner_scan iswspace payload lexer valid_symbols
           = Some (False, lexer)"
proof (cases "valid_symbols LINE_CONTINUATION")
  case True
  have "skip_whitespace iswspace lexer = Some lexer"
    using assms by (simp add: skip_whitespace_stop)
  with True show ?thesis
    using assms by (simp add: scan_no_backslash)
next
  case False
  then show ?thesis by (simp add: tree_sitter_morpheus_external_scanner_scan_def)
qed

theorem scan_newline_alone_witness:
  "lookahead \<lparr>source_text = [NEWLINE], current_position = 0,
              token_start_position = 0, result_symbol = 7\<rparr> = NEWLINE
   \<and> tree_sitter_morpheus_external_scanner_scan iswspace_C NULL
       \<lparr>source_text = [NEWLINE], current_position = 0,
        token_start_position = 0, result_symbol = 7\<rparr> (\<lambda>_. True)
       = Some (False, \<lparr>source_text = [NEWLINE], current_position = 0,
                        token_start_position = 0, result_symbol = 7\<rparr>)"
  using scan_newline_alone [of
      "\<lparr>source_text = [NEWLINE], current_position = 0,
        token_start_position = 0, result_symbol = 7\<rparr>" iswspace_C NULL "\<lambda>_. True"]
  by (simp add: lookahead_def)

text \<open>
  C6: serialize returns 0 and leaves memory as it is, for every memory, payload and
  buffer, hence after any history of calls; deserialize leaves memory as it is for
  every buffer and length; serialize followed by deserialize gives back the memory it
  started from; and the result of scan does not depend on the payload, so the handle
  behaves the same before and after.
\<close>

theorem serialize_deserialize_stateless:
  "tree_sitter_morpheus_external_scanner_serialize mem payload buffer = (0, mem)
   \<and> tree_sitter_morpheus_external_scanner_deserialize mem payload buffer len = mem
   \<and> (case tree_sitter_morpheus_external_scanner_serialize mem payload buffer of
        (n, mem') \<Rightarrow>
          tree_sitter_morpheus_external_scanner_deserialize mem' payload buffer n = mem)
   \<and> tree_sitter_morpheus_external_scanner_scan iswspace payload lexer valid_symbols
       = tree_sitter_morpheus_external_scanner_scan iswspace payload' lexer valid_symbols"
  by (simp add: tree_sitter_morpheus_external_scanner_serialize_def
      tree_sitter_morpheus_external_scanner_deserialize_def
      tree_sitter_morpheus_external_scanner_scan_def)

text \<open>
  C7: scan returns on every input, whether or not the category is admissible, and its
  cursor ends at most 3 code points behind the run of whitespace that it skips (the
  backslash, the carriage return and the newline), never before the position it
  started from. The sentinel 0 is taken not to be whitespace; \<open>scan_never_returns\<close>
  shows what the loop does otherwise.
\<close>

theorem scan_returns:
  assumes "\<not> iswspace 0"
  shows "\<exists>ok lexer'.
           tree_sitter_morpheus_external_scanner_scan iswspace payload lexer valid_symbols
             = Some (ok, lexer')
           \<and> current_position lexer \<le> current_position lexer'
           \<and> current_position lexer'
               \<le> current_position lexer + length (whitespace_run iswspace lexer) + 3"
proof (cases "valid_symbols LINE_CONTINUATION")
  case True
  have "skip_whitespace iswspace lexer
               = Some (skip_by lexer (length (whitespace_run iswspace lexer)))"
    using assms by (rule skip_whitespace_returns)
  from scan_after_whitespace [of valid_symbols iswspace lexer _ payload, OF True this]
  show ?thesis
    by (simp only: skip_by_fields) fastforce
next
  case False
  then show ?thesis by (auto simp: tree_sitter_morpheus_external_scanner_scan_def)
qed

theorem scan_returns_witness:
  "\<not> iswspace_C 0
   \<and> (\<exists>ok lexer'.
        tree_sitter_morpheus_external_scanner_scan iswspace_C NULL
          \<lparr>source_text = [32, 9, BACKSLASH, CARRIAGE_RETURN, NEWLINE, 120],
           current_position = 0, token_start_position = 0, result_symbol = 7\<rparr> (\<lambda>_. True)
          = Some (ok, lexer')
        \<and> 0 \<le> current_position lexer' \<and> current_position lexer' \<le> 0 + 2 + 3)"
  using scan_returns [of iswspace_C NULL
      "\<lparr>source_text = [32, 9, BACKSLASH, CARRIAGE_RETURN, NEWLINE, 120],
        current_position = 0, token_start_position = 0, result_symbol = 7\<rparr>" "\<lambda>_. True"]
  by (simp add: iswspace_C_def remaining_def whitespace_run_def)

text \<open>
  C8: when the cursor is at the end of the input, the code point under it is the
  sentinel 0, and scan fails and returns the lexer as it was: the sentinel is no
  backslash, and it is taken not to be whitespace.
\<close>

theorem scan_end_of_input:
  assumes "\<not> iswspace 0" and "length (source_text lexer) \<le> current_position lexer"
  shows "lookahead lexer = 0
       \<and> tree_sitter_morpheus_external_scanner_scan iswspace payload lexer valid_symbols
           = Some (False, lexer)"
proof -
  have look: "lookahead lexer = 0"
    using assms(2) by (simp add: lookahead_def)
  have skip: "skip_whitespace iswspace lexer = Some lexer"
    using assms(1) by (simp add: skip_whitespace_stop look)
  have "tree_sitter_morpheus_external_scanner_scan iswspace payload lexer valid_symbols
           = Some (False, lexer)"
  proof (cases "valid_symbols LINE_CONTINUATION")
    case True
    then show ?thesis using skip by (simp add: scan_no_backslash look)
  next
    case False
    then show ?thesis by (simp add: tree_sitter_morpheus_external_scanner_scan_def)
  qed
  with look show ?thesis by simp
qed

theorem scan_end_of_input_witness:
  "\<not> iswspace_C 0
   \<and> length (source_text \<lparr>source_text = [], current_position = 0,
                          token_start_position = 0, result_symbol = 7\<rparr>)
       \<le> current_position \<lparr>source_text = [], current_position = 0,
                             token_start_position = 0, result_symbol = 7\<rparr>
   \<and> tree_sitter_morpheus_external_scanner_scan iswspace_C NULL
       \<lparr>source_text = [], current_position = 0,
        token_start_position = 0, result_symbol = 7\<rparr> (\<lambda>_. True)
       = Some (False, \<lparr>source_text = [], current_position = 0,
                        token_start_position = 0, result_symbol = 7\<rparr>)"
  using scan_end_of_input [of iswspace_C
      "\<lparr>source_text = [], current_position = 0,
        token_start_position = 0, result_symbol = 7\<rparr>" NULL "\<lambda>_. True"]
  by (simp add: iswspace_C_def)

text \<open>
  C9: whenever scan returns failure, for whatever reason, the result symbol of the lexer
  is the one it held before the call. The witness runs the three ways to fail: category
  not admissible, no backslash behind the whitespace, no newline behind the backslash.
\<close>

theorem scan_failure_keeps_result_symbol:
  assumes "tree_sitter_morpheus_external_scanner_scan iswspace payload lexer valid_symbols
             = Some (False, lexer')"
  shows "result_symbol lexer' = result_symbol lexer"
proof (cases "valid_symbols LINE_CONTINUATION")
  case True
  with assms obtain l1 where skip: "skip_whitespace iswspace lexer = Some l1"
    by (auto simp: tree_sitter_morpheus_external_scanner_scan_def split: option.splits)
  then have "result_symbol l1 = result_symbol lexer"
    by (rule skip_whitespace_result_symbol)
  moreover have "result_symbol lexer' = result_symbol l1"
    using assms True skip
    by (auto simp: tree_sitter_morpheus_external_scanner_scan_def Let_def advance_def
             split: if_splits)
  ultimately show ?thesis by simp
next
  case False
  with assms show ?thesis
    by (simp add: tree_sitter_morpheus_external_scanner_scan_def)
qed

theorem scan_failure_keeps_result_symbol_witness:
  "tree_sitter_morpheus_external_scanner_scan iswspace_C NULL
       \<lparr>source_text = [BACKSLASH, NEWLINE], current_position = 0,
        token_start_position = 0, result_symbol = 7\<rparr> (\<lambda>_. False)
       = Some (False, \<lparr>source_text = [BACKSLASH, NEWLINE], current_position = 0,
                        token_start_position = 0, result_symbol = 7\<rparr>)
   \<and> tree_sitter_morpheus_external_scanner_scan iswspace_C NULL
       \<lparr>source_text = [32, 120], current_position = 0,
        token_start_position = 0, result_symbol = 7\<rparr> (\<lambda>_. True)
       = Some (False, \<lparr>source_text = [32, 120], current_position = 1,
                        token_start_position = 1, result_symbol = 7\<rparr>)
   \<and> tree_sitter_morpheus_external_scanner_scan iswspace_C NULL
       \<lparr>source_text = [32, BACKSLASH, 120], current_position = 0,
        token_start_position = 0, result_symbol = 7\<rparr> (\<lambda>_. True)
       = Some (False, \<lparr>source_text = [32, BACKSLASH, 120], current_position = 2,
                        token_start_position = 1, result_symbol = 7\<rparr>)
   \<and> result_symbol \<lparr>source_text = [32, BACKSLASH, 120], current_position = 2,
                        token_start_position = 1, result_symbol = 7\<rparr>
     = result_symbol \<lparr>source_text = [32, BACKSLASH, 120], current_position = 0,
        token_start_position = 0, result_symbol = (7 :: TSSymbol)\<rparr>"
proof -
  have none: "tree_sitter_morpheus_external_scanner_scan iswspace_C NULL
       \<lparr>source_text = [BACKSLASH, NEWLINE], current_position = 0,
        token_start_position = 0, result_symbol = 7\<rparr> (\<lambda>_. False)
       = Some (False, \<lparr>source_text = [BACKSLASH, NEWLINE], current_position = 0,
                        token_start_position = 0, result_symbol = 7\<rparr>)"
    by (simp add: tree_sitter_morpheus_external_scanner_scan_def)
  have other: "tree_sitter_morpheus_external_scanner_scan iswspace_C NULL
       \<lparr>source_text = [32, 120], current_position = 0,
        token_start_position = 0, result_symbol = 7\<rparr> (\<lambda>_. True)
       = Some (False, \<lparr>source_text = [32, 120], current_position = 1,
                        token_start_position = 1, result_symbol = 7\<rparr>)"
    by (simp add: tree_sitter_morpheus_external_scanner_scan_def skip_whitespace.simps
        lookahead_def advance_def iswspace_C_def Let_def)
  have run: "tree_sitter_morpheus_external_scanner_scan iswspace_C NULL
       \<lparr>source_text = [32, BACKSLASH, 120], current_position = 0,
        token_start_position = 0, result_symbol = 7\<rparr> (\<lambda>_. True)
       = Some (False, \<lparr>source_text = [32, BACKSLASH, 120], current_position = 2,
                        token_start_position = 1, result_symbol = 7\<rparr>)"
    by (simp add: tree_sitter_morpheus_external_scanner_scan_def skip_whitespace.simps
        lookahead_def advance_def iswspace_C_def Let_def)
  from none other run scan_failure_keeps_result_symbol [OF none]
    scan_failure_keeps_result_symbol [OF other] scan_failure_keeps_result_symbol [OF run]
  show ?thesis by simp
qed

text \<open>
  C10: with the category admissible, a non-empty run of carriage returns, tabs, vertical
  tabs and form feeds in front of backslash and newline is skipped as insignificant
  text: scan succeeds, the token starts behind the run and spans the backslash and the
  newline only. The four code points are taken to be whitespace and the backslash not.
\<close>

theorem scan_whitespace_before_backslash:
  assumes "valid_symbols LINE_CONTINUATION" and "\<not> iswspace BACKSLASH"
    and "iswspace CARRIAGE_RETURN" "iswspace 9" "iswspace 11" "iswspace 12"
    and "pre \<noteq> []" and "set pre \<subseteq> {CARRIAGE_RETURN, 9, 11, 12}"
    and "remaining lexer = pre @ BACKSLASH # NEWLINE # rest"
  shows "tree_sitter_morpheus_external_scanner_scan iswspace payload lexer valid_symbols
           = Some (True, lexer\<lparr>current_position := current_position lexer + length pre + 2,
                                token_start_position := current_position lexer + length pre,
                                result_symbol := TokenType_value LINE_CONTINUATION\<rparr>)"
proof -
  have ws: "\<forall>c\<in>set pre. iswspace c \<and> c \<noteq> NEWLINE"
    using assms(3-6,8) by auto
  have skip: "skip_whitespace iswspace lexer = Some (skip_by lexer (length pre))"
    by (rule skip_whitespace_run [OF assms(9) ws]) (simp add: assms(2))
  have "tree_sitter_morpheus_external_scanner_scan iswspace payload lexer valid_symbols
          = Some (True, (skip_by lexer (length pre))
                \<lparr>current_position := current_position (skip_by lexer (length pre)) + 2,
                  result_symbol := TokenType_value LINE_CONTINUATION\<rparr>)"
    using assms(1) skip remaining_skip_by [OF assms(9)] by (rule scan_backslash_LF)
  then show ?thesis
    using assms(7) by (simp only: skip_by_forward_symbol) simp
qed

theorem scan_whitespace_before_backslash_witness:
  "(\<lambda>_. True) LINE_CONTINUATION \<and> \<not> iswspace_C BACKSLASH
   \<and> iswspace_C CARRIAGE_RETURN \<and> iswspace_C 9 \<and> iswspace_C 11 \<and> iswspace_C 12
   \<and> tree_sitter_morpheus_external_scanner_scan iswspace_C NULL
       \<lparr>source_text = [CARRIAGE_RETURN, BACKSLASH, NEWLINE], current_position = 0,
        token_start_position = 0, result_symbol = 7\<rparr> (\<lambda>_. True)
       = Some (True, \<lparr>source_text = [CARRIAGE_RETURN, BACKSLASH, NEWLINE],
                       current_position = 3, token_start_position = 1, result_symbol = 0\<rparr>)
   \<and> tree_sitter_morpheus_external_scanner_scan iswspace_C NULL
       \<lparr>source_text = [9, 11, 12, BACKSLASH, NEWLINE], current_position = 0,
        token_start_position = 0, result_symbol = 7\<rparr> (\<lambda>_. True)
       = Some (True, \<lparr>source_text = [9, 11, 12, BACKSLASH, NEWLINE],
                       current_position = 5, token_start_position = 3, result_symbol = 0\<rparr>)"
  using scan_whitespace_before_backslash [of "\<lambda>_. True" iswspace_C "[CARRIAGE_RETURN]"
      "\<lparr>source_text = [CARRIAGE_RETURN, BACKSLASH, NEWLINE], current_position = 0,
        token_start_position = 0, result_symbol = 7\<rparr>" "[]" NULL]
    scan_whitespace_before_backslash [of "\<lambda>_. True" iswspace_C "[9, 11, 12]"
      "\<lparr>source_text = [9, 11, 12, BACKSLASH, NEWLINE], current_position = 0,
        token_start_position = 0, result_symbol = 7\<rparr>" "[]" NULL]
  by (simp add: iswspace_C_def remaining_def)

end
